theory Spec2Isabelle
  imports Complex_Main "HOL-Library.Sublist" "HOL-Library.AList"
begin

section \<open>Data model of blinks-core (api/Action/Action.ts, hooks/useBlinkList.ts)\<close>

text \<open>
  Values thrown by the JavaScript code or by the platform functions it calls. A function
  that can throw (or an async function whose promise can reject) returns
  \<open>js_error + 'a\<close>, with \<open>Inl\<close> the thrown value.
\<close>

datatype js_error = TypeError string | SyntaxError string | Error string

text \<open>
  The declarations of \<^verbatim>\<open>actions-spec.ts\<close> are not part of the sources at hand; the
  records below hold the fields that Action.ts reads. String-literal union types
  (\<^verbatim>\<open>ActionParameterType\<close>, \<^verbatim>\<open>LinkedActionType\<close>) are strings, as they are at run
  time; an optional field is an \<open>option\<close>.
\<close>

record TypedActionParameter =
  param_name :: string
  param_type :: "string option"
  param_label :: "string option"
  param_required :: "bool option"

record LinkedAction =
  href :: string
  label :: string
  ltype :: "string option"
  parameters :: "TypedActionParameter list option"

record ActionLinks =
  actions :: "LinkedAction list option"

record ActionError =
  message :: string

record LiveData =
  enabled :: bool
  delayMs :: "real option"

record ExperimentalFeatures =
  liveData :: "LiveData option"

datatype ActionType = ActionT | CompletedT

text \<open>
  \<^verbatim>\<open>NextAction\<close> and \<^verbatim>\<open>ExtendedActionGetResponse\<close>: the manifest. The object spread in
  \<^verbatim>\<open>_fetch\<close> copies every field of the response, \<^verbatim>\<open>dialectExperimental\<close> included, so
  one record serves for both.
\<close>

record NextAction =
  mtype :: ActionType
  icon :: string
  title :: string
  description :: string
  mlabel :: string
  disabled :: "bool option"
  links :: "ActionLinks option"
  merror :: "ActionError option"
  dialectExperimental :: "ExperimentalFeatures option"

record ActionMetadata =
  blockchainIds :: "string list option"
  version :: "string option"

datatype ActionChainMetadata = NotChained | Chained (chained_isInline: bool)

text \<open>
  The component classes of \<^verbatim>\<open>action-components\<close>: the class that was instantiated and
  the constructor arguments. The parent back-reference (always \<^verbatim>\<open>this\<close> of the Action
  under construction) is a cycle in the object graph and is left out.
\<close>

datatype ComponentClass =
  ButtonActionComponent | SingleValueActionComponent
  | MultiValueActionComponent | FormActionComponent

record AbstractActionComponent =
  comp_class :: ComponentClass
  comp_label :: string
  comp_href :: string
  comp_type :: string
  comp_parameters :: "TypedActionParameter list"

section \<open>componentFactory\<close>

definition MULTI_VALUE_TYPES :: "string list" where
  "MULTI_VALUE_TYPES = [''checkbox'']"

definition new_component ::
  "ComponentClass \<Rightarrow> string \<Rightarrow> string \<Rightarrow> string \<Rightarrow> TypedActionParameter list
    \<Rightarrow> AbstractActionComponent" where
  "new_component c l h t ps =
     \<lparr>comp_class = c, comp_label = l, comp_href = h, comp_type = t, comp_parameters = ps\<rparr>"

text \<open>
  \<^verbatim>\<open>!parameters?.length\<close> holds for an absent and for an empty list;
  \<^verbatim>\<open>!parameter.type\<close> holds for an absent type and for the empty string.
\<close>

definition componentFactory ::
  "string \<Rightarrow> string \<Rightarrow> string \<Rightarrow> TypedActionParameter list option
    \<Rightarrow> AbstractActionComponent" where
  "componentFactory l h t ps_opt =
     (case ps_opt of
        None \<Rightarrow> new_component ButtonActionComponent l h t []
      | Some [] \<Rightarrow> new_component ButtonActionComponent l h t []
      | Some (parameter # rest) \<Rightarrow>
          if length (parameter # rest) > 1
          then new_component FormActionComponent l h t (parameter # rest)
          else (case param_type parameter of
                  None \<Rightarrow> new_component SingleValueActionComponent l h t (parameter # rest)
                | Some ty \<Rightarrow>
                    if ty = []
                    then new_component SingleValueActionComponent l h t (parameter # rest)
                    else if ty \<in> set MULTI_VALUE_TYPES
                    then new_component MultiValueActionComponent l h t (parameter # rest)
                    else new_component SingleValueActionComponent l h t (parameter # rest)))"

section \<open>Platform and collaborators\<close>

text \<open>
  A request handed to the platform's \<^verbatim>\<open>fetch\<close>, and the response it resolves to. The
  body is what \<^verbatim>\<open>response.json()\<close> gives: the parsed value (cast by the code to the
  expected type without validation) or the thrown parse error. Header names are looked
  up as given.
\<close>

record Request =
  req_url :: string
  req_method :: string
  req_headers :: "(string \<times> string) list"
  req_body :: "string option"

record 'b Response =
  status :: nat
  resp_headers :: "(string \<times> string) list"
  json :: "js_error + 'b"

text \<open>\<^verbatim>\<open>response.ok\<close> of the Fetch standard: the status is in the range 200 to 299.\<close>

definition ok :: "'b Response \<Rightarrow> bool" where
  "ok response \<longleftrightarrow> 200 \<le> status response \<and> status response \<le> 299"

definition headers_get :: "'b Response \<Rightarrow> string \<Rightarrow> string option" where
  "headers_get response k = map_of (resp_headers response) k"

text \<open>
  The observable effects: how many ids \<^verbatim>\<open>nanoid()\<close> has handed out, the requests passed
  to \<^verbatim>\<open>fetch\<close> in order, and the lines written with \<^verbatim>\<open>console.error\<close> (the message
  and, where the code passes one, the error object).
\<close>

record World =
  ids_drawn :: nat
  requests :: "Request list"
  console :: "(string \<times> js_error option) list"

record BlinkListEntry =
  entry_id :: string
  entry_title :: string
  entry_description :: string
  blinkUrl :: string
  metadataUrl :: "string option"
  image :: string
  entry_icon :: "string option"

record BlinkList =
  entries :: "BlinkListEntry list"

text \<open>
  What the code takes from outside this file, as parameters:
  \<^item> \<open>URL_origin u\<close> is \<^verbatim>\<open>new URL(u).origin\<close>, \<open>None\<close> where the constructor throws
    its TypeError;
  \<^item> \<open>isUrlSameOrigin\<close> (utils/security.ts) and \<open>proxify\<close> (utils), which may throw;
  \<^item> \<open>nanoid_src n\<close> is the string the \<open>n\<close>-th call of \<^verbatim>\<open>nanoid()\<close> returns;
  \<^item> \<open>network n req\<close> and \<open>registry n req\<close> are what \<^verbatim>\<open>fetch\<close> settles to for the
    request \<open>req\<close> made after \<open>n\<close> earlier requests: a rejection or a response (a fetch
    that never settles is not modelled);
  \<^item> the baseline constants of action-supportability.ts, and the client key of
    utils/client-key.ts.
\<close>

record Env =
  URL_origin :: "string \<Rightarrow> string option"
  isUrlSameOrigin :: "string \<Rightarrow> string \<Rightarrow> js_error + bool"
  proxify :: "string \<Rightarrow> js_error + (string \<times> (string \<times> string) list)"
  nanoid_src :: "nat \<Rightarrow> string"
  network :: "nat \<Rightarrow> Request \<Rightarrow> js_error + NextAction Response"
  registry :: "nat \<Rightarrow> Request \<Rightarrow> js_error + BlinkList Response"
  BASELINE_ACTION_BLOCKCHAIN_IDS :: "string list"
  BASELINE_ACTION_VERSION :: string
  clientKey :: "string option"
  BLINK_CLIENT_KEY_HEADER :: string

definition nanoid :: "Env \<Rightarrow> World \<Rightarrow> string \<times> World" where
  "nanoid env w = (nanoid_src env (ids_drawn w), w\<lparr>ids_drawn := Suc (ids_drawn w)\<rparr>)"

definition console_error :: "string \<Rightarrow> js_error option \<Rightarrow> World \<Rightarrow> World" where
  "console_error msg e w = w\<lparr>console := console w @ [(msg, e)]\<rparr>"

definition fetch_net ::
  "(nat \<Rightarrow> Request \<Rightarrow> js_error + 'b Response) \<Rightarrow> Request \<Rightarrow> World
    \<Rightarrow> (js_error + 'b Response) \<times> World" where
  "fetch_net net req w = (net (length (requests w)) req, w\<lparr>requests := requests w @ [req]\<rparr>)"

text \<open>
  An object literal with a spread: a key already present keeps its place and takes the
  new value, a new key goes to the end.
\<close>

definition spread :: "(string \<times> string) list \<Rightarrow> (string \<times> string) list \<Rightarrow> (string \<times> string) list" where
  "spread base extra = fold (\<lambda>(k, v). AList.update k v) extra base"

section \<open>getActionMetadata\<close>

fun split_on :: "char \<Rightarrow> string \<Rightarrow> string list" where
  "split_on c [] = [[]]"
| "split_on c (x # xs) =
     (if x = c then [] # split_on c xs
      else (case split_on c xs of [] \<Rightarrow> [[x]] | y # ys \<Rightarrow> (x # y) # ys))"

definition is_space :: "char \<Rightarrow> bool" where
  "is_space c \<longleftrightarrow> c \<in> set [CHR '' '', CHR 0x09, CHR 0x0A, CHR 0x0B, CHR 0x0C, CHR 0x0D]"

definition trim :: "string \<Rightarrow> string" where
  "trim s = rev (dropWhile is_space (rev (dropWhile is_space s)))"

definition getActionMetadata :: "'b Response \<Rightarrow> ActionMetadata" where
  "getActionMetadata response =
     \<lparr>blockchainIds =
        map_option (\<lambda>h. map trim (split_on CHR '','' h)) (headers_get response ''x-blockchain-ids''),
      version = map_option trim (headers_get response ''x-action-version'')\<rparr>"

section \<open>The Action class\<close>

text \<open>
  The private fields. The support strategy is called with the Action itself; it is
  modelled as a function of the Action's other fields (a function of the whole record
  would make the type recursive through a function argument), of the adapter, and it
  may throw.
\<close>

record ActionAdapter =
  supportedBlockchainIds :: "string list"

record SupportVerdict =
  v_isSupported :: bool
  v_message :: "string option"

record ActionFields =
  p_url :: string
  p_data :: NextAction
  p_metadata :: ActionMetadata
  p_chainMetadata :: ActionChainMetadata
  p_id :: "string option"
  p_experimental :: "ExperimentalFeatures option"
  p_actions :: "AbstractActionComponent list"

type_synonym ActionSupportStrategy = "ActionFields \<Rightarrow> ActionAdapter \<Rightarrow> js_error + SupportVerdict"

record Action = ActionFields +
  p_supportStrategy :: ActionSupportStrategy

definition startsWith :: "string \<Rightarrow> string \<Rightarrow> bool" where
  "startsWith s p \<longleftrightarrow> prefix p s"

definition links_actions :: "NextAction \<Rightarrow> LinkedAction list option" where
  "links_actions d = (case links d of None \<Rightarrow> None | Some l \<Rightarrow> actions l)"

definition resolve_href :: "string \<Rightarrow> string \<Rightarrow> string" where
  "resolve_href origin h = (if startsWith h ''http'' then h else origin @ h)"

text \<open>
  The constructor. \<^verbatim>\<open>!_data.links?.actions\<close> holds when \<^verbatim>\<open>links\<close> or \<^verbatim>\<open>links.actions\<close>
  is absent; an array, empty or not, is truthy. \<^verbatim>\<open>new URL(_url)\<close> is reached only past
  the early return and throws on a string that is not a URL.
\<close>

definition new_Action ::
  "Env \<Rightarrow> string \<Rightarrow> NextAction \<Rightarrow> ActionMetadata \<Rightarrow> ActionSupportStrategy
    \<Rightarrow> ActionChainMetadata \<Rightarrow> string option \<Rightarrow> ExperimentalFeatures option
    \<Rightarrow> js_error + Action" where
  "new_Action env u d m s c i e =
     (let this = \<lambda>comps. \<lparr>p_url = u, p_data = d, p_metadata = m, p_chainMetadata = c,
                          p_id = i, p_experimental = e, p_actions = comps,
                          p_supportStrategy = s\<rparr>;
          placeholder = this [new_component ButtonActionComponent (mlabel d) u ''transaction'' []]
      in case links_actions d of
           None \<Rightarrow> Inr placeholder
         | Some linked \<Rightarrow>
             if mtype d = CompletedT then Inr placeholder
             else (case URL_origin env u of
                     None \<Rightarrow> Inl (TypeError ''Invalid URL'')
                   | Some origin \<Rightarrow>
                       Inr (this (map (\<lambda>action.
                              componentFactory (label action)
                                (resolve_href origin (href action))
                                (case ltype action of None \<Rightarrow> ''transaction'' | Some t \<Rightarrow> t)
                                (parameters action))
                            linked))))"

subsection \<open>Getters\<close>

record RequiredLiveData =
  r_enabled :: bool
  r_delayMs :: real

definition EXPERIMENTAL_LIVE_DATA_DEFAULT_DELAY_MS :: real where
  "EXPERIMENTAL_LIVE_DATA_DEFAULT_DELAY_MS = 1000"

text \<open>
  \<^verbatim>\<open>delayMs\<close> is a JSON number: a finite double, on which the test for zero and
  \<^verbatim>\<open>Math.max\<close> are exact, hence a real here. A falsy \<^verbatim>\<open>delayMs\<close> is an absent one or 0.
\<close>

definition liveData_experimental :: "Action \<Rightarrow> RequiredLiveData option" where
  "liveData_experimental this =
     (case (case p_experimental this of None \<Rightarrow> None | Some x \<Rightarrow> liveData x) of
        None \<Rightarrow> None
      | Some ld \<Rightarrow>
          Some \<lparr>r_enabled = enabled ld,
                r_delayMs =
                  (case delayMs ld of
                     None \<Rightarrow> EXPERIMENTAL_LIVE_DATA_DEFAULT_DELAY_MS
                   | Some d \<Rightarrow>
                       if d = 0 then EXPERIMENTAL_LIVE_DATA_DEFAULT_DELAY_MS
                       else max d EXPERIMENTAL_LIVE_DATA_DEFAULT_DELAY_MS)\<rparr>)"

definition url :: "Action \<Rightarrow> string" where
  "url this = p_url this"

definition isChained :: "Action \<Rightarrow> bool" where
  "isChained this = (case p_chainMetadata this of NotChained \<Rightarrow> False | Chained _ \<Rightarrow> True)"

definition isInline :: "Action \<Rightarrow> bool" where
  "isInline this = (case p_chainMetadata this of NotChained \<Rightarrow> False | Chained b \<Rightarrow> b)"

definition metadata :: "Env \<Rightarrow> Action \<Rightarrow> ActionMetadata" where
  "metadata env this =
     \<lparr>blockchainIds =
        Some (case blockchainIds (p_metadata this) of
                None \<Rightarrow> BASELINE_ACTION_BLOCKCHAIN_IDS env | Some b \<Rightarrow> b),
      version =
        Some (case version (p_metadata this) of
                None \<Rightarrow> BASELINE_ACTION_VERSION env | Some v \<Rightarrow> v)\<rparr>"

subsection \<open>isSupported\<close>

definition isSupported_try ::
  "Action \<Rightarrow> ActionAdapter \<Rightarrow> World \<Rightarrow> (js_error + SupportVerdict) \<times> World" where
  "isSupported_try this adapter w =
     (p_supportStrategy this (ActionFields.truncate this) adapter, w)"

definition isSupported ::
  "Action \<Rightarrow> ActionAdapter \<Rightarrow> World \<Rightarrow> (js_error + SupportVerdict) \<times> World" where
  "isSupported this adapter w =
     (case isSupported_try this adapter w of
        (Inr verdict, w') \<Rightarrow> (Inr verdict, w')
      | (Inl e, w') \<Rightarrow>
          (Inr \<lparr>v_isSupported = False,
                 v_message = Some ''Failed to check supportability, please contact your Blink client provider.''\<rparr>,
           console_error
             (''[@dialectlabs/blinks] Failed to check supportability for action '' @ url this)
             (Some e) w'))"

subsection \<open>chain\<close>

definition post_request :: "string \<Rightarrow> (string \<times> string) list \<Rightarrow> string option \<Rightarrow> Request" where
  "post_request proxyUrl proxyHeaders chainData =
     \<lparr>req_url = proxyUrl, req_method = ''POST'',
      req_headers =
        spread [(''Content-Type'', ''application/json''), (''Accept'', ''application/json'')]
          proxyHeaders,
      req_body = chainData\<rparr>"

definition get_request :: "string \<Rightarrow> (string \<times> string) list \<Rightarrow> Request" where
  "get_request proxyUrl proxyHeaders =
     \<lparr>req_url = proxyUrl, req_method = ''GET'',
      req_headers = spread [(''Accept'', ''application/json'')] proxyHeaders,
      req_body = None\<rparr>"

datatype NextActionLink = InlineNextActionLink NextAction | PostNextActionLink string

text \<open>
  \<open>chainData\<close> is the caller's payload, given as the text \<^verbatim>\<open>JSON.stringify\<close> makes of
  it (\<open>None\<close> for \<^verbatim>\<open>undefined\<close>).
\<close>

definition chain ::
  "Env \<Rightarrow> Action \<Rightarrow> NextActionLink \<Rightarrow> string option \<Rightarrow> World
    \<Rightarrow> (js_error + Action option) \<times> World" where
  "chain env this next chainData w0 =
     (let (new_id, w) = nanoid env w0 in
      case next of
        InlineNextActionLink next_action \<Rightarrow>
          (map_sum (\<lambda>e. e) Some
             (new_Action env (url this) next_action (metadata env this)
                (p_supportStrategy this) (Chained True) (Some new_id) None), w)
      | PostNextActionLink next_href \<Rightarrow>
          (case URL_origin env (url this) of
             None \<Rightarrow> (Inl (TypeError ''Invalid URL''), w)
           | Some origin \<Rightarrow>
               (case isUrlSameOrigin env origin next_href of
                  Inl e \<Rightarrow> (Inl e, w)
                | Inr False \<Rightarrow>
                    (Inr None,
                     console_error
                       (''Chained action is not the same origin as the current action. Original: ''
                          @ url this @ '', chained: '' @ next_href) None w)
                | Inr True \<Rightarrow>
                    (let h = resolve_href origin next_href in
                     case proxify env h of
                       Inl e \<Rightarrow> (Inl e, w)
                     | Inr (proxyUrl, proxyHeaders) \<Rightarrow>
                         (let (res, w') =
                            fetch_net (network env)
                              (post_request proxyUrl proxyHeaders chainData) w
                          in case res of
                               Inl e \<Rightarrow> (Inl e, w')
                             | Inr response \<Rightarrow>
                                 if \<not> ok response
                                 then (Inr None,
                                       console_error
                                         (''Failed to fetch chained action '' @ proxyUrl
                                            @ '', action url: '' @ next_href) None w')
                                 else (case json response of
                                         Inl e \<Rightarrow> (Inl e, w')
                                       | Inr data \<Rightarrow>
                                           (map_sum (\<lambda>e. e) Some
                                              (new_Action env h data (getActionMetadata response)
                                                 (p_supportStrategy this) (Chained False)
                                                 (Some new_id) None), w')))))))"

subsection \<open>hydrate, fetch, refresh, withUpdate\<close>

definition hydrate ::
  "Env \<Rightarrow> string \<Rightarrow> NextAction \<Rightarrow> ActionMetadata \<Rightarrow> ActionSupportStrategy \<Rightarrow> World
    \<Rightarrow> (js_error + Action) \<times> World" where
  "hydrate env u d m s w0 =
     (let (new_id, w) = nanoid env w0 in (new_Action env u d m s NotChained (Some new_id) None, w))"

text \<open>
  The private static \<^verbatim>\<open>_fetch\<close>. An absent \<^verbatim>\<open>chainMetadata\<close> takes the constructor's
  default \<^verbatim>\<open>{ isChained: false }\<close>.
\<close>

definition p_fetch ::
  "Env \<Rightarrow> string \<Rightarrow> ActionSupportStrategy \<Rightarrow> ActionChainMetadata option \<Rightarrow> string option
    \<Rightarrow> World \<Rightarrow> (js_error + Action) \<times> World" where
  "p_fetch env apiUrl s chainMetadata id_opt w =
     (case proxify env apiUrl of
        Inl e \<Rightarrow> (Inl e, w)
      | Inr (proxyUrl, proxyHeaders) \<Rightarrow>
          (let (res, w') =
             fetch_net (network env) (get_request proxyUrl proxyHeaders) w
           in case res of
                Inl e \<Rightarrow> (Inl e, w')
              | Inr response \<Rightarrow>
                  if \<not> ok response
                  then (Inl (Error (''Failed to fetch action '' @ proxyUrl
                                     @ '', action url: '' @ apiUrl)), w')
                  else (case json response of
                          Inl e \<Rightarrow> (Inl e, w')
                        | Inr data \<Rightarrow>
                            (new_Action env apiUrl (data\<lparr>mtype := ActionT\<rparr>)
                               (getActionMetadata response) s
                               (case chainMetadata of None \<Rightarrow> NotChained | Some c \<Rightarrow> c)
                               id_opt (dialectExperimental data), w'))))"

definition fetch ::
  "Env \<Rightarrow> string \<Rightarrow> ActionSupportStrategy \<Rightarrow> World \<Rightarrow> (js_error + Action) \<times> World" where
  "fetch env apiUrl s w0 =
     (let (new_id, w) = nanoid env w0 in p_fetch env apiUrl s (Some NotChained) (Some new_id) w)"

definition refresh :: "Env \<Rightarrow> Action \<Rightarrow> World \<Rightarrow> (js_error + Action) \<times> World" where
  "refresh env this w =
     p_fetch env (url this) (p_supportStrategy this) (Some (p_chainMetadata this)) (p_id this) w"

record ActionUpdate =
  upd_supportStrategy :: "ActionSupportStrategy option"

definition withUpdate :: "Env \<Rightarrow> Action \<Rightarrow> ActionUpdate \<Rightarrow> js_error + Action" where
  "withUpdate env this update =
     new_Action env (p_url this) (p_data this) (p_metadata this)
       (case upd_supportStrategy update of None \<Rightarrow> p_supportStrategy this | Some s \<Rightarrow> s)
       (p_chainMetadata this) (p_id this) (p_experimental this)"

text \<open>
  The constructor is private: an Action is a value that the constructor returned for
  its own fields.
\<close>

definition constructed :: "Env \<Rightarrow> Action \<Rightarrow> bool" where
  "constructed env a \<longleftrightarrow>
     new_Action env (p_url a) (p_data a) (p_metadata a) (p_supportStrategy a)
       (p_chainMetadata a) (p_id a) (p_experimental a) = Inr a"

section \<open>useBlinkList\<close>

definition digit_char :: "nat \<Rightarrow> char" where
  "digit_char d = ''0123456789'' ! d"

fun string_of_nat :: "nat \<Rightarrow> string" where
  "string_of_nat n =
     (if n < 10 then [digit_char n]
      else string_of_nat (n div 10) @ [digit_char (n mod 10)])"

text \<open>
  \<^verbatim>\<open>...(clientKey && { [BLINK_CLIENT_KEY_HEADER]: clientKey })\<close> adds the header for a
  truthy client key: one that is present and not the empty string.
\<close>

definition list_request :: "Env \<Rightarrow> Request" where
  "list_request env =
     \<lparr>req_url = ''https://registry.dial.to/v1/private/blinks/list'', req_method = ''GET'',
      req_headers =
        spread [(''Accept'', ''application/json'')]
          (case clientKey env of
             None \<Rightarrow> []
           | Some k \<Rightarrow> if k = [] then [] else [(BLINK_CLIENT_KEY_HEADER env, k)]),
      req_body = None\<rparr>"

definition fetchBlinkList_try :: "Env \<Rightarrow> World \<Rightarrow> (js_error + BlinkList) \<times> World" where
  "fetchBlinkList_try env w =
     (let (res, w') = fetch_net (registry env) (list_request env) w
      in case res of
           Inl e \<Rightarrow> (Inl e, w')
         | Inr response \<Rightarrow>
             if \<not> ok response
             then (Inr \<lparr>entries = []\<rparr>,
                   console_error
                     (''[@dialectlabs/blinks] Failed to fetch blink list, response status: ''
                        @ string_of_nat (status response)) None w')
             else (json response, w'))"

definition fetchBlinkList :: "Env \<Rightarrow> World \<Rightarrow> (js_error + BlinkList) \<times> World" where
  "fetchBlinkList env w =
     (case fetchBlinkList_try env w of
        (Inr list, w') \<Rightarrow> (Inr list, w')
      | (Inl e, w') \<Rightarrow>
          (Inr \<lparr>entries = []\<rparr>,
           console_error ''[@dialectlabs/blinks] Failed to fetch blink list'' (Some e) w'))"

text \<open>
  The hook's state, and one run of \<^verbatim>\<open>refetch\<close> up to the settling of its promise chain:
  \<^verbatim>\<open>then\<close> runs on fulfilment only, \<^verbatim>\<open>finally\<close> always, and a rejection is passed on.
  \<open>ignore\<close> is the flag the cancel function sets.
\<close>

record HookState =
  loading :: bool
  hook_data :: "BlinkList option"

definition refetch_settle ::
  "bool \<Rightarrow> js_error + BlinkList \<Rightarrow> HookState \<Rightarrow> (js_error + unit) \<times> HookState" where
  "refetch_settle ignore res st =
     (case res of
        Inr d \<Rightarrow>
          (let st1 = (if \<not> ignore then st\<lparr>hook_data := Some d\<rparr> else st)
           in (Inr (), if \<not> ignore then st1\<lparr>loading := False\<rparr> else st1))
      | Inl e \<Rightarrow> (Inl e, if \<not> ignore then st\<lparr>loading := False\<rparr> else st))"

definition refetch ::
  "Env \<Rightarrow> bool \<Rightarrow> HookState \<Rightarrow> World \<Rightarrow> ((js_error + unit) \<times> HookState) \<times> World" where
  "refetch env ignore st w =
     (let (res, w') = fetchBlinkList env w
      in (refetch_settle ignore res (st\<lparr>loading := True\<rparr>), w'))"

definition useBlinkList_data :: "HookState \<Rightarrow> BlinkListEntry list" where
  "useBlinkList_data st = (case hook_data st of None \<Rightarrow> [] | Some d \<Rightarrow> entries d)"

section \<open>The spec's reading of href resolution\<close>

text \<open>
  The specification resolves an href that "does not start with a URI scheme". A scheme
  (RFC 3986) is a letter followed by letters, digits, \<open>+\<close>, \<open>-\<close> or \<open>.\<close>, up to a colon.
  \<open>spec_resolve_href\<close> follows the specification's words, to be compared with
  \<open>resolve_href\<close>, which follows the code.
\<close>

definition is_alpha :: "char \<Rightarrow> bool" where
  "is_alpha c \<longleftrightarrow>
     (let n = (of_char c :: nat) in (65 \<le> n \<and> n \<le> 90) \<or> (97 \<le> n \<and> n \<le> 122))"

definition is_scheme_char :: "char \<Rightarrow> bool" where
  "is_scheme_char c \<longleftrightarrow>
     (let n = (of_char c :: nat)
      in is_alpha c \<or> (48 \<le> n \<and> n \<le> 57) \<or> c \<in> set [CHR ''+'', CHR ''-'', CHR ''.''])"

definition starts_with_scheme :: "string \<Rightarrow> bool" where
  "starts_with_scheme s \<longleftrightarrow>
     (case s of
        [] \<Rightarrow> False
      | c # cs \<Rightarrow> is_alpha c \<and> (case dropWhile is_scheme_char cs of
                                   [] \<Rightarrow> False
                                 | d # _ \<Rightarrow> d = CHR '':''))"

definition spec_resolve_href :: "string \<Rightarrow> string \<Rightarrow> string" where
  "spec_resolve_href origin h = (if starts_with_scheme h then h else origin @ h)"

section \<open>A sample environment\<close>

text \<open>
  Concrete collaborators on which the operations can be run. \<open>sample_origin\<close> lists what
  \<^verbatim>\<open>new URL(u).origin\<close> is for the URLs used below; every other string, the empty one
  among them, stands for one the URL constructor rejects.
\<close>

definition sample_origin :: "string \<Rightarrow> string option" where
  "sample_origin u =
     map_of [(''https://x/api/action'', ''https://x''),
             (''https://x/api/done'', ''https://x''),
             (''https://x/api/live'', ''https://x''),
             (''https://x/next'', ''https://x''),
             (''https://evil.example/next'', ''https://evil.example'')] u"

definition sample_manifest :: NextAction where
  "sample_manifest =
     \<lparr>mtype = ActionT, icon = ''data:image/png;base64,AA=='', title = ''Tip'',
      description = ''Send a tip'', mlabel = ''Send'', disabled = None, links = None,
      merror = None, dialectExperimental = None\<rparr>"

definition amt_link :: LinkedAction where
  "amt_link =
     \<lparr>href = ''/next'', label = ''Go'', ltype = None,
      parameters = Some [\<lparr>param_name = ''amt'', param_type = None, param_label = None,
                          param_required = None\<rparr>]\<rparr>"

definition linked_manifest :: "LinkedAction list \<Rightarrow> NextAction" where
  "linked_manifest ls = sample_manifest\<lparr>links := Some \<lparr>actions = Some ls\<rparr>\<rparr>"

definition sample_network :: "nat \<Rightarrow> Request \<Rightarrow> js_error + NextAction Response" where
  "sample_network n req =
     (if req_method req = ''GET'' \<and> req_url req = ''https://x/api/action''
      then Inr \<lparr>status = 200, resp_headers = [(''x-action-version'', '' 2.2 '')],
                 json = Inr (linked_manifest [amt_link])\<rparr>
      else if req_method req = ''GET'' \<and> req_url req = ''https://x/api/done''
      then Inr \<lparr>status = 200, resp_headers = [],
                 json = Inr (sample_manifest\<lparr>mtype := CompletedT\<rparr>)\<rparr>
      else if req_method req = ''GET'' \<and> req_url req = ''https://x/api/live''
      then Inr \<lparr>status = 200, resp_headers = [],
                 json = Inr (sample_manifest\<lparr>dialectExperimental :=
                               Some \<lparr>liveData = Some \<lparr>enabled = False, delayMs = None\<rparr>\<rparr>\<rparr>)\<rparr>
      else if req_method req = ''POST'' \<and> req_url req = ''https://x/next''
      then Inr \<lparr>status = 500, resp_headers = [], json = Inl (SyntaxError ''Unexpected end of JSON input'')\<rparr>
      else Inl (TypeError ''Failed to fetch''))"

definition sample_registry :: "nat \<Rightarrow> Request \<Rightarrow> js_error + BlinkList Response" where
  "sample_registry n req =
     (if n = 0 then Inr \<lparr>status = 503, resp_headers = [], json = Inl (SyntaxError ''Unexpected token'')\<rparr>
      else if n = 1 then Inl (TypeError ''Failed to fetch'')
      else Inr \<lparr>status = 200, resp_headers = [], json = Inl (SyntaxError ''Unexpected token'')\<rparr>)"

definition sample_env :: Env where
  "sample_env =
     \<lparr>URL_origin = sample_origin,
      isUrlSameOrigin =
        (\<lambda>origin h. Inr (if startsWith h ''http'' then sample_origin h = Some origin else True)),
      proxify = (\<lambda>u. Inr (u, [])),
      nanoid_src = (\<lambda>n. ''id-'' @ string_of_nat n),
      network = sample_network,
      registry = sample_registry,
      BASELINE_ACTION_BLOCKCHAIN_IDS = [''solana:mainnet''],
      BASELINE_ACTION_VERSION = ''2.0'',
      clientKey = None,
      BLINK_CLIENT_KEY_HEADER = ''x-blink-client-key''\<rparr>"

definition accepting_strategy :: ActionSupportStrategy where
  "accepting_strategy a adapter = Inr \<lparr>v_isSupported = True, v_message = None\<rparr>"

definition throwing_strategy :: ActionSupportStrategy where
  "throwing_strategy a adapter = Inl (Error ''registry unavailable'')"

definition sample_adapter :: ActionAdapter where
  "sample_adapter = \<lparr>supportedBlockchainIds = [''solana:mainnet'']\<rparr>"

definition w0 :: World where
  "w0 = \<lparr>ids_drawn = 0, requests = [], console = []\<rparr>"

definition no_metadata :: ActionMetadata where
  "no_metadata = \<lparr>blockchainIds = None, version = None\<rparr>"

text \<open>
  The Action that \<open>hydrate\<close> makes of \<open>sample_manifest\<close> at \<^verbatim>\<open>https://x/api/action\<close> in a
  fresh world, and the same Action carrying a live-data block.
\<close>

definition sample_action :: "ActionSupportStrategy \<Rightarrow> Action" where
  "sample_action s =
     \<lparr>p_url = ''https://x/api/action'', p_data = sample_manifest, p_metadata = no_metadata,
      p_chainMetadata = NotChained, p_id = Some ''id-0'', p_experimental = None,
      p_actions = [new_component ButtonActionComponent ''Send'' ''https://x/api/action''
                     ''transaction'' []],
      p_supportStrategy = s\<rparr>"

definition live_action :: "LiveData \<Rightarrow> Action" where
  "live_action ld = (sample_action accepting_strategy)\<lparr>p_experimental := Some \<lparr>liveData = Some ld\<rparr>\<rparr>"

definition checkbox_param :: TypedActionParameter where
  "checkbox_param =
     \<lparr>param_name = ''opts'', param_type = Some ''checkbox'', param_label = None,
      param_required = None\<rparr>"

definition text_param :: TypedActionParameter where
  "text_param =
     \<lparr>param_name = ''memo'', param_type = Some ''text'', param_label = None,
      param_required = None\<rparr>"

text \<open>
  The Action that \<open>fetch\<close> returns for \<^verbatim>\<open>https://x/api/action\<close> and for
  \<^verbatim>\<open>https://x/api/done\<close> in the sample environment, and the one \<open>hydrate\<close> returns for
  the empty string as URL.
\<close>

definition fetched_action :: Action where
  "fetched_action =
     \<lparr>p_url = ''https://x/api/action'', p_data = linked_manifest [amt_link],
      p_metadata = \<lparr>blockchainIds = None, version = Some ''2.2''\<rparr>,
      p_chainMetadata = NotChained, p_id = Some ''id-0'', p_experimental = None,
      p_actions = [new_component SingleValueActionComponent ''Go'' ''https://x/next''
                     ''transaction''
                     [\<lparr>param_name = ''amt'', param_type = None, param_label = None,
                        param_required = None\<rparr>]],
      p_supportStrategy = accepting_strategy\<rparr>"

definition done_action :: Action where
  "done_action =
     \<lparr>p_url = ''https://x/api/done'', p_data = sample_manifest, p_metadata = no_metadata,
      p_chainMetadata = NotChained, p_id = Some ''id-0'', p_experimental = None,
      p_actions = [new_component ButtonActionComponent ''Send'' ''https://x/api/done''
                     ''transaction'' []],
      p_supportStrategy = accepting_strategy\<rparr>"

definition detached_action :: Action where
  "detached_action =
     \<lparr>p_url = [], p_data = sample_manifest, p_metadata = no_metadata,
      p_chainMetadata = NotChained, p_id = Some ''id-0'', p_experimental = None,
      p_actions = [new_component ButtonActionComponent ''Send'' [] ''transaction'' []],
      p_supportStrategy = accepting_strategy\<rparr>"

text \<open>An environment whose id generator returns the same string at every call.\<close>

definition repeating_env :: Env where
  "repeating_env = sample_env\<lparr>nanoid_src := (\<lambda>n. ''V1StGXR8_Z5jdHi6B-myT'')\<rparr>"

text \<open>The hook's initial state, and the world after \<open>n\<close> requests for the list.\<close>

definition st0 :: HookState where
  "st0 = \<lparr>loading = False, hook_data = None\<rparr>"

definition after_requests :: "nat \<Rightarrow> World" where
  "after_requests n = w0\<lparr>requests := replicate n (list_request sample_env)\<rparr>"

section \<open>Verified properties\<close>

lemmas sample_defs = sample_env_def sample_origin_def sample_manifest_def sample_network_def
  sample_registry_def w0_def no_metadata_def linked_manifest_def amt_link_def
  sample_action_def live_action_def accepting_strategy_def throwing_strategy_def

lemmas op_defs = hydrate_def fetch_def p_fetch_def refresh_def chain_def nanoid_def
  new_Action_def links_actions_def fetch_net_def get_request_def post_request_def
  spread_def ok_def getActionMetadata_def headers_get_def console_error_def url_def
  resolve_href_def startsWith_def componentFactory_def new_component_def digit_char_def
  metadata_def

subsection \<open>The sample Action is an Action\<close>

lemma hydrate_sample_action:
  "hydrate sample_env ''https://x/api/action'' sample_manifest no_metadata s w0 =
     (Inr (sample_action s), w0\<lparr>ids_drawn := 1\<rparr>)"
  by (simp add: hydrate_def nanoid_def sample_env_def w0_def new_Action_def links_actions_def
      sample_manifest_def sample_action_def digit_char_def)

lemma constructed_sample_action: "constructed env (sample_action s)"
  by (simp add: constructed_def new_Action_def links_actions_def sample_manifest_def
      sample_action_def)

lemma constructed_live_action: "constructed env (live_action ld)"
  by (simp add: constructed_def new_Action_def links_actions_def sample_manifest_def
      sample_action_def live_action_def)

subsection \<open>componentFactory\<close>

text \<open>
  C3. The component factory returns a Button for an absent and for an empty parameter
  list, a Form for a list of two or more parameters, a MultiValue for a single parameter
  whose declared type is one of \<open>MULTI_VALUE_TYPES\<close> (which holds \<open>checkbox\<close> only), and a
  SingleValue for a single parameter with no declared type or with a declared type
  outside \<open>MULTI_VALUE_TYPES\<close>.
\<close>

theorem componentFactory_classes:
  "comp_class (componentFactory l h t None) = ButtonActionComponent
   \<and> comp_class (componentFactory l h t (Some [])) = ButtonActionComponent
   \<and> (2 \<le> length ps \<longrightarrow> comp_class (componentFactory l h t (Some ps)) = FormActionComponent)
   \<and> (param_type p = Some ty \<and> ty \<in> set MULTI_VALUE_TYPES \<longrightarrow>
        comp_class (componentFactory l h t (Some [p])) = MultiValueActionComponent)
   \<and> (param_type q = None \<or> (param_type q = Some ty' \<and> ty' \<notin> set MULTI_VALUE_TYPES) \<longrightarrow>
        comp_class (componentFactory l h t (Some [q])) = SingleValueActionComponent)
   \<and> set MULTI_VALUE_TYPES = {''checkbox''}"
proof -
  have form: "comp_class (componentFactory l h t (Some ps)) = FormActionComponent"
    if "2 \<le> length ps"
  proof (cases ps)
    case Nil
    with that show ?thesis by simp
  next
    case (Cons a rest)
    with that have "rest \<noteq> []" by auto
    with Cons show ?thesis by (simp add: componentFactory_def new_component_def)
  qed
  have multi: "comp_class (componentFactory l h t (Some [p])) = MultiValueActionComponent"
    if "param_type p = Some ty" "ty \<in> set MULTI_VALUE_TYPES"
    using that by (auto simp: componentFactory_def new_component_def MULTI_VALUE_TYPES_def)
  have single: "comp_class (componentFactory l h t (Some [q])) = SingleValueActionComponent"
    if "param_type q = None \<or> (param_type q = Some ty' \<and> ty' \<notin> set MULTI_VALUE_TYPES)"
    using that by (auto simp: componentFactory_def new_component_def)
  show ?thesis
    using form multi single
    by (simp add: componentFactory_def new_component_def MULTI_VALUE_TYPES_def)
qed

theorem componentFactory_classes_witness:
  "2 \<le> length [checkbox_param, text_param]
   \<and> comp_class (componentFactory ''Go'' ''https://x/next'' ''transaction''
        (Some [checkbox_param, text_param])) = FormActionComponent
   \<and> param_type checkbox_param = Some ''checkbox'' \<and> ''checkbox'' \<in> set MULTI_VALUE_TYPES
   \<and> comp_class (componentFactory ''Go'' ''https://x/next'' ''transaction''
        (Some [checkbox_param])) = MultiValueActionComponent
   \<and> param_type text_param = Some ''text'' \<and> ''text'' \<notin> set MULTI_VALUE_TYPES
   \<and> comp_class (componentFactory ''Go'' ''https://x/next'' ''transaction''
        (Some [text_param])) = SingleValueActionComponent"
  using componentFactory_classes [of "''Go''" "''https://x/next''" "''transaction''"
      "[checkbox_param, text_param]" checkbox_param "''checkbox''" text_param "''text''"]
  by (simp add: checkbox_param_def text_param_def MULTI_VALUE_TYPES_def)

subsection \<open>isSupported\<close>

text \<open>
  C5. \<open>isSupported\<close> always returns a verdict and never throws: when the bound support
  strategy throws, the verdict is \<open>isSupported = false\<close> with the message "Failed to check
  supportability, please contact your Blink client provider."; when the strategy returns
  a verdict, that verdict is returned and nothing is logged.
\<close>

theorem isSupported_never_throws:
  "(\<exists>verdict. fst (isSupported a adapter w) = Inr verdict)
   \<and> (p_supportStrategy a (ActionFields.truncate a) adapter = Inl e \<longrightarrow>
        fst (isSupported a adapter w) =
          Inr \<lparr>v_isSupported = False,
                v_message = Some ''Failed to check supportability, please contact your Blink client provider.''\<rparr>)
   \<and> (p_supportStrategy a (ActionFields.truncate a) adapter = Inr v \<longrightarrow>
        isSupported a adapter w = (Inr v, w))"
  by (cases "p_supportStrategy a (ActionFields.truncate a) adapter")
     (simp_all add: isSupported_def isSupported_try_def)

theorem isSupported_never_throws_witness:
  "p_supportStrategy (sample_action throwing_strategy)
     (ActionFields.truncate (sample_action throwing_strategy)) sample_adapter
     = Inl (Error ''registry unavailable'')
   \<and> fst (isSupported (sample_action throwing_strategy) sample_adapter w0) =
       Inr \<lparr>v_isSupported = False,
             v_message = Some ''Failed to check supportability, please contact your Blink client provider.''\<rparr>
   \<and> isSupported (sample_action accepting_strategy) sample_adapter w0 =
       (Inr \<lparr>v_isSupported = True, v_message = None\<rparr>, w0)"
  using isSupported_never_throws [of "sample_action throwing_strategy" sample_adapter w0
      "Error ''registry unavailable''"]
    isSupported_never_throws [of "sample_action accepting_strategy" sample_adapter w0 _
      "\<lparr>v_isSupported = True, v_message = None\<rparr>"]
  by (simp add: sample_action_def throwing_strategy_def accepting_strategy_def)

subsection \<open>withUpdate\<close>

lemma new_Action_strategy:
  "new_Action env u d m s' c i e =
     map_sum (\<lambda>x. x) (\<lambda>a. a\<lparr>p_supportStrategy := s'\<rparr>) (new_Action env u d m s c i e)"
  by (simp add: new_Action_def Let_def split: option.splits)

text \<open>
  C6. For every Action \<open>a\<close>, \<open>withUpdate\<close> with no support strategy returns an Action
  equal to \<open>a\<close> in every field, and \<open>withUpdate\<close> with a support strategy \<open>s\<close> returns \<open>a\<close>
  with the support strategy replaced by \<open>s\<close>: url, data, metadata, chain metadata, id,
  experimental features and the derived components are those of \<open>a\<close>.
\<close>

theorem withUpdate_frame:
  "constructed env a \<Longrightarrow>
     withUpdate env a \<lparr>upd_supportStrategy = None\<rparr> = Inr a
     \<and> withUpdate env a \<lparr>upd_supportStrategy = Some s\<rparr> = Inr (a\<lparr>p_supportStrategy := s\<rparr>)"
proof -
  assume c: "constructed env a"
  then have same: "withUpdate env a \<lparr>upd_supportStrategy = None\<rparr> = Inr a"
    by (simp add: constructed_def withUpdate_def)
  have "withUpdate env a \<lparr>upd_supportStrategy = Some s\<rparr> =
          map_sum (\<lambda>x. x) (\<lambda>a. a\<lparr>p_supportStrategy := s\<rparr>)
            (new_Action env (p_url a) (p_data a) (p_metadata a) (p_supportStrategy a)
               (p_chainMetadata a) (p_id a) (p_experimental a))"
    by (simp add: withUpdate_def
        new_Action_strategy [where s' = s and s = "p_supportStrategy a"])
  with c have "withUpdate env a \<lparr>upd_supportStrategy = Some s\<rparr> = Inr (a\<lparr>p_supportStrategy := s\<rparr>)"
    by (simp add: constructed_def)
  with same show ?thesis by simp
qed

theorem withUpdate_frame_witness:
  "constructed sample_env (live_action \<lparr>enabled = True, delayMs = Some 5000\<rparr>)
   \<and> withUpdate sample_env (live_action \<lparr>enabled = True, delayMs = Some 5000\<rparr>)
        \<lparr>upd_supportStrategy = None\<rparr>
       = Inr (live_action \<lparr>enabled = True, delayMs = Some 5000\<rparr>)
   \<and> withUpdate sample_env (live_action \<lparr>enabled = True, delayMs = Some 5000\<rparr>)
        \<lparr>upd_supportStrategy = Some throwing_strategy\<rparr>
       = Inr ((live_action \<lparr>enabled = True, delayMs = Some 5000\<rparr>)
               \<lparr>p_supportStrategy := throwing_strategy\<rparr>)"
  using withUpdate_frame [OF constructed_live_action, of sample_env
      "\<lparr>enabled = True, delayMs = Some 5000\<rparr>" throwing_strategy]
    constructed_live_action [of sample_env "\<lparr>enabled = True, delayMs = Some 5000\<rparr>"]
  by simp

subsection \<open>liveData_experimental\<close>

text \<open>
  C7 (as amended). \<open>liveData_experimental\<close> returns null exactly when the experimental
  liveData block is absent. When the block is present, whether enabled or not, it returns
  \<open>enabled\<close> as declared and \<open>delayMs = max(declared delayMs, 1000)\<close>, which is 1000 when
  the declared \<open>delayMs\<close> is absent or zero.
\<close>

theorem liveData_experimental_present:
  "(liveData_experimental a = None \<longleftrightarrow>
      (p_experimental a = None \<or> (\<exists>x. p_experimental a = Some x \<and> liveData x = None)))
   \<and> (p_experimental a = Some x \<and> liveData x = Some ld \<longrightarrow>
        liveData_experimental a =
          Some \<lparr>r_enabled = enabled ld,
                r_delayMs = max (case delayMs ld of None \<Rightarrow> 0 | Some d \<Rightarrow> d) 1000\<rparr>
        \<and> (delayMs ld = None \<or> delayMs ld = Some 0 \<longrightarrow>
             liveData_experimental a = Some \<lparr>r_enabled = enabled ld, r_delayMs = 1000\<rparr>))"
  by (auto simp: liveData_experimental_def EXPERIMENTAL_LIVE_DATA_DEFAULT_DELAY_MS_def
           split: option.splits)

theorem liveData_experimental_present_witness:
  "p_experimental (live_action \<lparr>enabled = True, delayMs = Some 200\<rparr>)
     = Some \<lparr>liveData = Some \<lparr>enabled = True, delayMs = Some 200\<rparr>\<rparr>
   \<and> liveData_experimental (live_action \<lparr>enabled = True, delayMs = Some 200\<rparr>)
     = Some \<lparr>r_enabled = True, r_delayMs = 1000\<rparr>
   \<and> liveData_experimental (live_action \<lparr>enabled = True, delayMs = Some 5000\<rparr>)
     = Some \<lparr>r_enabled = True, r_delayMs = 5000\<rparr>
   \<and> liveData_experimental (live_action \<lparr>enabled = True, delayMs = Some 0\<rparr>)
     = Some \<lparr>r_enabled = True, r_delayMs = 1000\<rparr>
   \<and> liveData_experimental (sample_action accepting_strategy) = None"
  using
    liveData_experimental_present [of "live_action \<lparr>enabled = True, delayMs = Some 200\<rparr>"
      "\<lparr>liveData = Some \<lparr>enabled = True, delayMs = Some 200\<rparr>\<rparr>"
      "\<lparr>enabled = True, delayMs = Some 200\<rparr>"]
    liveData_experimental_present [of "live_action \<lparr>enabled = True, delayMs = Some 5000\<rparr>"
      "\<lparr>liveData = Some \<lparr>enabled = True, delayMs = Some 5000\<rparr>\<rparr>"
      "\<lparr>enabled = True, delayMs = Some 5000\<rparr>"]
    liveData_experimental_present [of "live_action \<lparr>enabled = True, delayMs = Some 0\<rparr>"
      "\<lparr>liveData = Some \<lparr>enabled = True, delayMs = Some 0\<rparr>\<rparr>"
      "\<lparr>enabled = True, delayMs = Some 0\<rparr>"]
    liveData_experimental_present [of "sample_action accepting_strategy"]
  by (simp add: live_action_def sample_action_def)

text \<open>
  A disabled liveData block does not give null: fetching a manifest that declares
  \<^verbatim>\<open>liveData: {enabled: false}\<close> yields an Action whose getter returns
  \<^verbatim>\<open>{enabled: false, delayMs: 1000}\<close>.
\<close>

theorem liveData_disabled_counterexample:
  "map_sum id p_experimental (fst (fetch sample_env ''https://x/api/live'' accepting_strategy w0))
     = Inr (Some \<lparr>liveData = Some \<lparr>enabled = False, delayMs = None\<rparr>\<rparr>)
   \<and> map_sum id liveData_experimental
        (fst (fetch sample_env ''https://x/api/live'' accepting_strategy w0))
     = Inr (Some \<lparr>r_enabled = False, r_delayMs = 1000\<rparr>)"
  by (simp add: sample_defs op_defs liveData_experimental_def
      EXPERIMENTAL_LIVE_DATA_DEFAULT_DELAY_MS_def)

subsection \<open>What the constructor and \<open>_fetch\<close> return\<close>

lemma new_Action_fields:
  "new_Action env u d m s c i e = Inr a \<Longrightarrow>
     p_url a = u \<and> p_data a = d \<and> p_metadata a = m \<and> p_supportStrategy a = s
     \<and> p_chainMetadata a = c \<and> p_id a = i \<and> p_experimental a = e"
  by (auto simp: new_Action_def Let_def split: option.splits if_splits)

lemma new_Action_constructed: "new_Action env u d m s c i e = Inr a \<Longrightarrow> constructed env a"
  using new_Action_fields [of env u d m s c i e a] by (simp add: constructed_def)

lemma p_fetch_Inr:
  assumes "fst (p_fetch env apiUrl s c i w) = Inr a"
  shows "\<exists>proxyUrl proxyHeaders response data.
           proxify env apiUrl = Inr (proxyUrl, proxyHeaders)
           \<and> network env (length (requests w)) (get_request proxyUrl proxyHeaders) = Inr response
           \<and> ok response \<and> json response = Inr data
           \<and> new_Action env apiUrl (data\<lparr>mtype := ActionT\<rparr>) (getActionMetadata response) s
                (case c of None \<Rightarrow> NotChained | Some c' \<Rightarrow> c') i (dialectExperimental data) = Inr a"
  using assms
  by (auto simp: p_fetch_def fetch_net_def Let_def split: sum.splits prod.splits if_splits)

lemma new_Action_placeholder:
  "mtype d = CompletedT \<or> links_actions d = None \<Longrightarrow>
     \<exists>a. new_Action env u d m s c i e = Inr a
       \<and> p_actions a = [new_component ButtonActionComponent (mlabel d) u ''transaction'' []]"
  by (auto simp: new_Action_def Let_def split: option.splits)

lemma constructed_actions_nonempty:
  "constructed env a \<Longrightarrow> links_actions (p_data a) \<noteq> Some [] \<or> mtype (p_data a) = CompletedT
     \<Longrightarrow> p_actions a \<noteq> []"
  by (auto simp: constructed_def new_Action_def Let_def split: option.splits if_splits
      dest!: arg_cong [where f = p_actions])

lemma fetch_done:
  "fst (fetch sample_env ''https://x/api/done'' accepting_strategy w0) = Inr done_action"
  by (simp add: sample_defs op_defs done_action_def)

lemma fetch_sample:
  "fst (fetch sample_env ''https://x/api/action'' accepting_strategy w0) = Inr fetched_action"
  by (simp add: sample_defs op_defs fetched_action_def trim_def is_space_def)

subsection \<open>fetch and refresh\<close>

text \<open>
  C9. Every Action that \<open>fetch\<close> or \<open>refresh\<close> returns has data type \<open>action\<close>; the data of
  a fetched Action is the manifest of the response with its type field overwritten, so a
  declared type \<open>completed\<close> is discarded.
\<close>

theorem fetch_type_is_action:
  "(fst (fetch env apiUrl s w) = Inr a \<or> fst (refresh env this w) = Inr a \<longrightarrow>
      mtype (p_data a) = ActionT)
   \<and> (fst (fetch env apiUrl s w) = Inr a \<longrightarrow>
        (\<exists>proxyUrl proxyHeaders response data.
           proxify env apiUrl = Inr (proxyUrl, proxyHeaders)
           \<and> network env (length (requests w)) (get_request proxyUrl proxyHeaders) = Inr response
           \<and> json response = Inr data \<and> p_data a = data\<lparr>mtype := ActionT\<rparr>))"
proof -
  have forced: "mtype (p_data b) = ActionT" if "fst (p_fetch env u t c i v) = Inr b" for u t c i v b
  proof -
    from p_fetch_Inr [OF that] obtain response :: "NextAction Response" and data where
      "new_Action env u (data\<lparr>mtype := ActionT\<rparr>) (getActionMetadata response) t
         (case c of None \<Rightarrow> NotChained | Some c' \<Rightarrow> c') i (dialectExperimental data) = Inr b"
      by blast
    from new_Action_fields [OF this] show ?thesis by simp
  qed
  have f: "fst (fetch env apiUrl s w) =
             fst (p_fetch env apiUrl s (Some NotChained) (Some (nanoid_src env (ids_drawn w)))
                    (w\<lparr>ids_drawn := Suc (ids_drawn w)\<rparr>))"
    by (simp add: fetch_def nanoid_def)
  have one: "mtype (p_data a) = ActionT"
    if "fst (fetch env apiUrl s w) = Inr a \<or> fst (refresh env this w) = Inr a"
    using that forced f by (auto simp: refresh_def)
  have two: "\<exists>proxyUrl proxyHeaders response data.
           proxify env apiUrl = Inr (proxyUrl, proxyHeaders)
           \<and> network env (length (requests w)) (get_request proxyUrl proxyHeaders) = Inr response
           \<and> json response = Inr data \<and> p_data a = data\<lparr>mtype := ActionT\<rparr>"
    if "fst (fetch env apiUrl s w) = Inr a"
  proof -
    from that f have "fst (p_fetch env apiUrl s (Some NotChained)
        (Some (nanoid_src env (ids_drawn w))) (w\<lparr>ids_drawn := Suc (ids_drawn w)\<rparr>)) = Inr a"
      by simp
    from p_fetch_Inr [OF this] obtain proxyUrl proxyHeaders response data where
      p: "proxify env apiUrl = Inr (proxyUrl, proxyHeaders)"
      and n: "network env (length (requests w)) (get_request proxyUrl proxyHeaders) = Inr response"
      and j: "json response = Inr data"
      and c: "new_Action env apiUrl (data\<lparr>mtype := ActionT\<rparr>) (getActionMetadata response) s
         (case Some NotChained of None \<Rightarrow> NotChained | Some c' \<Rightarrow> c')
         (Some (nanoid_src env (ids_drawn w))) (dialectExperimental data) = Inr a"
      by auto
    from new_Action_fields [OF c] have "p_data a = data\<lparr>mtype := ActionT\<rparr>" by simp
    with p n j show ?thesis by blast
  qed
  from one two show ?thesis by blast
qed

theorem fetch_type_is_action_witness:
  "fst (fetch sample_env ''https://x/api/done'' accepting_strategy w0) = Inr done_action
   \<and> network sample_env 0 (get_request ''https://x/api/done'' [])
       = Inr \<lparr>status = 200, resp_headers = [],
               json = Inr (sample_manifest\<lparr>mtype := CompletedT\<rparr>)\<rparr>
   \<and> mtype (p_data done_action) = ActionT"
  using fetch_type_is_action [of sample_env "''https://x/api/done''" accepting_strategy w0
      done_action "sample_action accepting_strategy"] fetch_done
  by (simp add: sample_env_def sample_network_def get_request_def spread_def)

subsection \<open>The derived components\<close>

text \<open>
  C2. The specification has \<open>actions\<close> never empty, and gives a manifest whose
  \<open>links.actions\<close> is empty the single placeholder Button. The constructor's test
  \<^verbatim>\<open>!_data.links?.actions\<close> does not hold for an empty array, so for the manifest
  \<^verbatim>\<open>{type: "action", ..., links: {actions: []}}\<close> the constructor maps over the empty
  list and the hydrated Action has no component at all.
\<close>

theorem empty_links_no_components:
  "links_actions (linked_manifest []) = Some []
   \<and> mtype (linked_manifest []) = ActionT
   \<and> map_sum id p_actions
        (fst (hydrate sample_env ''https://x/api/action'' (linked_manifest []) no_metadata
                accepting_strategy w0)) = Inr []"
  by (simp add: sample_defs op_defs)

text \<open>
  C8 (as amended). For every Action that is not completed and has \<open>links.actions\<close>, the
  href of each component is the declared href unchanged when that href starts with the
  characters \<open>http\<close>, and otherwise the origin of the Action's URL followed by the declared
  href. In particular, when fetching \<^verbatim>\<open>https://x/api/action\<close> returns a manifest with one
  link whose href is \<^verbatim>\<open>/next\<close>, the component's href is \<^verbatim>\<open>https://x/next\<close>.
\<close>

theorem href_resolution:
  "(constructed env a \<and> mtype (p_data a) \<noteq> CompletedT
      \<and> links_actions (p_data a) = Some linked \<and> URL_origin env (url a) = Some origin \<longrightarrow>
      map comp_href (p_actions a)
        = map (\<lambda>l. if startsWith (href l) ''http'' then href l else origin @ href l) linked)
   \<and> (fst (fetch env ''https://x/api/action'' s w) = Inr b
        \<and> URL_origin env ''https://x/api/action'' = Some ''https://x''
        \<and> links_actions (p_data b) = Some [l] \<and> href l = ''/next'' \<longrightarrow>
        map comp_href (p_actions b) = [''https://x/next''])"
proof -
  have general: "map comp_href (p_actions c)
        = map (\<lambda>l. if startsWith (href l) ''http'' then href l else og @ href l) ls"
    if "constructed env c" "mtype (p_data c) \<noteq> CompletedT"
       "links_actions (p_data c) = Some ls" "URL_origin env (url c) = Some og" for c ls og
  proof -
    from that have "p_actions c = map (\<lambda>action.
                              componentFactory (label action)
                                (resolve_href og (href action))
                                (case ltype action of None \<Rightarrow> ''transaction'' | Some t \<Rightarrow> t)
                                (parameters action)) ls"
      by (auto simp: constructed_def new_Action_def url_def Let_def
          dest!: arg_cong [where f = p_actions])
    moreover have "comp_href (componentFactory lb h t ps) = h" for lb h t ps
      by (simp add: componentFactory_def new_component_def split: option.splits list.splits)
    ultimately show ?thesis by (simp add: resolve_href_def comp_def)
  qed
  have example: "map comp_href (p_actions b) = [''https://x/next'']"
    if f: "fst (fetch env ''https://x/api/action'' s w) = Inr b"
      and o: "URL_origin env ''https://x/api/action'' = Some ''https://x''"
      and ls: "links_actions (p_data b) = Some [l]" and h: "href l = ''/next''"
  proof -
    from f have "fst (p_fetch env ''https://x/api/action'' s (Some NotChained)
        (Some (nanoid_src env (ids_drawn w))) (w\<lparr>ids_drawn := Suc (ids_drawn w)\<rparr>)) = Inr b"
      by (simp add: fetch_def nanoid_def)
    from p_fetch_Inr [OF this] obtain response :: "NextAction Response" and data where
      n: "new_Action env ''https://x/api/action'' (data\<lparr>mtype := ActionT\<rparr>)
            (getActionMetadata response) s
            (case Some NotChained of None \<Rightarrow> NotChained | Some c' \<Rightarrow> c')
            (Some (nanoid_src env (ids_drawn w))) (dialectExperimental data) = Inr b"
      by blast
    from new_Action_fields [OF n] have u: "url b = ''https://x/api/action''"
      and t: "mtype (p_data b) \<noteq> CompletedT"
      by (simp_all add: url_def)
    from general [OF new_Action_constructed [OF n] t ls] o u h
    show ?thesis by (simp add: startsWith_def)
  qed
  from general example show ?thesis by blast
qed

theorem href_resolution_witness:
  "fst (fetch sample_env ''https://x/api/action'' accepting_strategy w0) = Inr fetched_action
   \<and> constructed sample_env fetched_action
   \<and> mtype (p_data fetched_action) \<noteq> CompletedT
   \<and> URL_origin sample_env ''https://x/api/action'' = Some ''https://x''
   \<and> links_actions (p_data fetched_action) = Some [amt_link] \<and> href amt_link = ''/next''
   \<and> map comp_href (p_actions fetched_action) = [''https://x/next'']
   \<and> map comp_class (p_actions fetched_action) = [SingleValueActionComponent]"
proof -
  have c: "constructed sample_env fetched_action"
    by (simp add: constructed_def sample_defs op_defs fetched_action_def)
  have rest: "mtype (p_data fetched_action) \<noteq> CompletedT
      \<and> URL_origin sample_env ''https://x/api/action'' = Some ''https://x''
      \<and> links_actions (p_data fetched_action) = Some [amt_link] \<and> href amt_link = ''/next''
      \<and> map comp_class (p_actions fetched_action) = [SingleValueActionComponent]"
    by (simp add: sample_defs op_defs fetched_action_def)
  from c rest fetch_sample
    href_resolution [of sample_env fetched_action "[amt_link]" "''https://x''"
      accepting_strategy w0 fetched_action amt_link]
  show ?thesis by simp
qed

text \<open>
  The code's test is for the prefix \<open>http\<close>, not for a URI scheme: \<^verbatim>\<open>ftp://y/z\<close> starts
  with a scheme and still gets the origin in front, and \<^verbatim>\<open>http-help\<close> starts with no
  scheme and is left as it is.
\<close>

theorem href_scheme_counterexample:
  "starts_with_scheme ''ftp://y/z'' \<and> \<not> starts_with_scheme ''http-help''
   \<and> map (spec_resolve_href ''https://x'') [''ftp://y/z'', ''http-help'']
       = [''ftp://y/z'', ''https://xhttp-help'']
   \<and> map_sum id (map comp_href)
        (map_sum id p_actions
          (fst (hydrate sample_env ''https://x/api/action''
                  (linked_manifest [amt_link\<lparr>href := ''ftp://y/z''\<rparr>,
                                    amt_link\<lparr>href := ''http-help''\<rparr>])
                  no_metadata accepting_strategy w0)))
       = Inr [''https://xftp://y/z'', ''http-help'']"
  by (simp add: sample_defs op_defs starts_with_scheme_def spec_resolve_href_def
      is_alpha_def is_scheme_char_def)

subsection \<open>chain\<close>

text \<open>
  C1. For a remote next link, \<open>chain\<close> returns null and does not throw (a) when
  \<open>isUrlSameOrigin\<close> finds the link's href not of the origin of the Action's URL, in which
  case no request is made, and (b) when the POST request was made and its response has a
  status outside 200 to 299. The Action is a value with read-only fields, which \<open>chain\<close>
  only reads; the effects are on the id counter, the console and the request log.
\<close>

theorem chain_remote_failure_null:
  "(URL_origin env (url a) = Some origin \<and> isUrlSameOrigin env origin h = Inr False \<longrightarrow>
      fst (chain env a (PostNextActionLink h) cd w) = Inr None
      \<and> requests (snd (chain env a (PostNextActionLink h) cd w)) = requests w)
   \<and> (requests (snd (chain env a (PostNextActionLink h) cd w)) = requests w @ [req]
       \<and> network env (length (requests w)) req = Inr response
       \<and> \<not> (200 \<le> status response \<and> status response \<le> 299) \<longrightarrow>
      fst (chain env a (PostNextActionLink h) cd w) = Inr None)"
  by (auto simp: chain_def nanoid_def fetch_net_def console_error_def ok_def Let_def
      split: option.splits sum.splits prod.splits bool.splits if_splits)

theorem chain_remote_failure_null_witness:
  "URL_origin sample_env (url (sample_action accepting_strategy)) = Some ''https://x''
   \<and> isUrlSameOrigin sample_env ''https://x'' ''https://evil.example/next'' = Inr False
   \<and> fst (chain sample_env (sample_action accepting_strategy)
             (PostNextActionLink ''https://evil.example/next'') None w0) = Inr None
   \<and> requests (snd (chain sample_env (sample_action accepting_strategy)
                       (PostNextActionLink ''/next'') None w0))
       = requests w0 @ [post_request ''https://x/next'' [] None]
   \<and> network sample_env (length (requests w0)) (post_request ''https://x/next'' [] None)
       = Inr \<lparr>status = 500, resp_headers = [],
               json = Inl (SyntaxError ''Unexpected end of JSON input'')\<rparr>
   \<and> \<not> (200 \<le> (500::nat) \<and> (500::nat) \<le> 299)
   \<and> fst (chain sample_env (sample_action accepting_strategy)
             (PostNextActionLink ''/next'') None w0) = Inr None"
proof -
  have o: "URL_origin sample_env (url (sample_action accepting_strategy)) = Some ''https://x''"
    by (simp add: sample_defs url_def)
  have x: "isUrlSameOrigin sample_env ''https://x'' ''https://evil.example/next'' = Inr False"
    by (simp add: sample_defs startsWith_def)
  have r: "requests (snd (chain sample_env (sample_action accepting_strategy)
                       (PostNextActionLink ''/next'') None w0))
       = requests w0 @ [post_request ''https://x/next'' [] None]"
    by (simp add: sample_defs op_defs)
  have n: "network sample_env (length (requests w0)) (post_request ''https://x/next'' [] None)
       = Inr \<lparr>status = 500, resp_headers = [],
               json = Inl (SyntaxError ''Unexpected end of JSON input'')\<rparr>"
    by (simp add: sample_defs op_defs)
  from o x r n
    chain_remote_failure_null [of sample_env "sample_action accepting_strategy" "''https://x''"
      "''https://evil.example/next''" None w0]
    chain_remote_failure_null [of sample_env "sample_action accepting_strategy" _
      "''/next''" None w0 "post_request ''https://x/next'' [] None"
      "\<lparr>status = 500, resp_headers = [],
               json = Inl (SyntaxError ''Unexpected end of JSON input'')\<rparr>"]
  show ?thesis by simp
qed

text \<open>
  C4 (as amended). For every Action \<open>a\<close> and every inline next link whose embedded manifest
  is completed or has no \<open>links.actions\<close>, or whenever the URL constructor accepts
  \<open>a.url\<close>, \<open>chain\<close> makes no network request and yields an Action whose chain metadata is
  Chained with \<open>isInline = true\<close>, whose url is \<open>a.url\<close>, whose data is the embedded
  manifest, whose support strategy is that of \<open>a\<close>, and whose id is the string returned by
  this call of \<open>nanoid()\<close>; that id differs from \<open>a.id\<close> unless \<open>nanoid()\<close> returns \<open>a.id\<close>
  again.
\<close>

theorem chain_inline:
  "mtype m = CompletedT \<or> links_actions m = None \<or> URL_origin env (url a) \<noteq> None \<Longrightarrow>
     \<exists>a'. chain env a (InlineNextActionLink m) cd w
             = (Inr (Some a'), w\<lparr>ids_drawn := Suc (ids_drawn w)\<rparr>)
        \<and> requests (snd (chain env a (InlineNextActionLink m) cd w)) = requests w
        \<and> p_chainMetadata a' = Chained True \<and> isChained a' \<and> isInline a'
        \<and> url a' = url a \<and> p_data a' = m
        \<and> p_supportStrategy a' = p_supportStrategy a
        \<and> p_id a' = Some (fst (nanoid env w))
        \<and> (p_id a' = p_id a \<longleftrightarrow> p_id a = Some (fst (nanoid env w)))"
  by (auto simp: chain_def nanoid_def new_Action_def url_def isChained_def isInline_def Let_def
      split: option.splits)

theorem chain_inline_witness:
  "URL_origin sample_env (url (sample_action accepting_strategy)) \<noteq> None
   \<and> map_sum id (map_option p_data)
       (fst (chain sample_env (sample_action accepting_strategy)
          (InlineNextActionLink (linked_manifest [amt_link])) None (w0\<lparr>ids_drawn := 1\<rparr>)))
     = Inr (Some (linked_manifest [amt_link]))
   \<and> map_sum id (map_option p_id)
       (fst (chain sample_env (sample_action accepting_strategy)
          (InlineNextActionLink (linked_manifest [amt_link])) None (w0\<lparr>ids_drawn := 1\<rparr>)))
     = Inr (Some (Some ''id-1''))
   \<and> requests (snd (chain sample_env (sample_action accepting_strategy)
          (InlineNextActionLink (linked_manifest [amt_link])) None (w0\<lparr>ids_drawn := 1\<rparr>))) = []"
proof -
  have o: "URL_origin sample_env (url (sample_action accepting_strategy)) \<noteq> None"
    by (simp add: sample_defs url_def)
  then have "mtype (linked_manifest [amt_link]) = CompletedT
      \<or> links_actions (linked_manifest [amt_link]) = None
      \<or> URL_origin sample_env (url (sample_action accepting_strategy)) \<noteq> None"
    by simp
  from chain_inline [OF this, of None "w0\<lparr>ids_drawn := 1\<rparr>"] o
  show ?thesis
    by (auto simp: nanoid_def sample_env_def w0_def digit_char_def)
qed

text \<open>
  An Action hydrated with a string that the URL constructor rejects exists (its manifest
  has no links, so the constructor never parses the URL), and chaining it to an inline
  manifest that has links throws the constructor's TypeError. And an id generator that
  returns the same string twice gives the chained Action the id of its parent: nothing
  in \<open>chain\<close> compares the two.
\<close>

theorem chain_inline_counterexample:
  "fst (hydrate sample_env [] sample_manifest no_metadata accepting_strategy w0)
     = Inr detached_action
   \<and> fst (chain sample_env detached_action (InlineNextActionLink (linked_manifest [amt_link]))
            None (w0\<lparr>ids_drawn := 1\<rparr>))
     = Inl (TypeError ''Invalid URL'')
   \<and> fst (hydrate repeating_env ''https://x/api/action'' sample_manifest no_metadata
            accepting_strategy w0)
     = Inr ((sample_action accepting_strategy)\<lparr>p_id := Some ''V1StGXR8_Z5jdHi6B-myT''\<rparr>)
   \<and> map_sum id (map_option p_id)
       (fst (chain repeating_env
               ((sample_action accepting_strategy)\<lparr>p_id := Some ''V1StGXR8_Z5jdHi6B-myT''\<rparr>)
               (InlineNextActionLink sample_manifest) None (w0\<lparr>ids_drawn := 1\<rparr>)))
     = Inr (Some (Some ''V1StGXR8_Z5jdHi6B-myT''))"
  by (simp add: sample_defs op_defs detached_action_def repeating_env_def)

subsection \<open>fetchBlinkList and useBlinkList\<close>

text \<open>
  C10. \<open>fetchBlinkList\<close> never rejects: it resolves to a list, and to the empty list when
  \<open>fetch\<close> rejects, when the response status is outside 200 to 299, and when parsing the
  body throws. Hence the promise chain of \<open>refetch\<close> settles without an error, and the data
  \<open>useBlinkList\<close> returns afterwards is the entries of that list (or, for a cancelled run,
  the previous data).
\<close>

theorem fetchBlinkList_never_rejects:
  "(\<exists>list. fst (fetchBlinkList env w) = Inr list
       \<and> fst (fst (refetch env ignore st w)) = Inr ()
       \<and> useBlinkList_data (snd (fst (refetch env ignore st w)))
           = (if ignore then useBlinkList_data st else entries list))
   \<and> (registry env (length (requests w)) (list_request env) = Inl e \<longrightarrow>
        fst (fetchBlinkList env w) = Inr \<lparr>entries = []\<rparr>)
   \<and> (registry env (length (requests w)) (list_request env) = Inr response
        \<and> \<not> (200 \<le> status response \<and> status response \<le> 299) \<longrightarrow>
        fst (fetchBlinkList env w) = Inr \<lparr>entries = []\<rparr>)
   \<and> (registry env (length (requests w)) (list_request env) = Inr response
        \<and> json response = Inl e \<longrightarrow>
        fst (fetchBlinkList env w) = Inr \<lparr>entries = []\<rparr>)"
proof -
  have "\<exists>list. fst (fetchBlinkList env w) = Inr list"
    by (simp add: fetchBlinkList_def split: prod.splits sum.splits)
  then obtain list where l: "fst (fetchBlinkList env w) = Inr list" ..
  then have "fst (fst (refetch env ignore st w)) = Inr ()"
    and "useBlinkList_data (snd (fst (refetch env ignore st w)))
           = (if ignore then useBlinkList_data st else entries list)"
    by (auto simp: refetch_def refetch_settle_def useBlinkList_data_def Let_def
        split: prod.splits)
  with l have first: "\<exists>list. fst (fetchBlinkList env w) = Inr list
       \<and> fst (fst (refetch env ignore st w)) = Inr ()
       \<and> useBlinkList_data (snd (fst (refetch env ignore st w)))
           = (if ignore then useBlinkList_data st else entries list)"
    by blast
  have rest: "(registry env (length (requests w)) (list_request env) = Inl e \<longrightarrow>
        fst (fetchBlinkList env w) = Inr \<lparr>entries = []\<rparr>)
   \<and> (registry env (length (requests w)) (list_request env) = Inr response
        \<and> \<not> (200 \<le> status response \<and> status response \<le> 299) \<longrightarrow>
        fst (fetchBlinkList env w) = Inr \<lparr>entries = []\<rparr>)
   \<and> (registry env (length (requests w)) (list_request env) = Inr response
        \<and> json response = Inl e \<longrightarrow>
        fst (fetchBlinkList env w) = Inr \<lparr>entries = []\<rparr>)"
    by (auto simp: fetchBlinkList_def fetchBlinkList_try_def fetch_net_def ok_def Let_def
        split: prod.splits sum.splits)
  from first rest show ?thesis by blast
qed

theorem fetchBlinkList_never_rejects_witness:
  "registry sample_env (length (requests (after_requests 0))) (list_request sample_env)
     = Inr \<lparr>status = 503, resp_headers = [], json = Inl (SyntaxError ''Unexpected token'')\<rparr>
   \<and> \<not> (200 \<le> (503::nat) \<and> (503::nat) \<le> 299)
   \<and> fst (fetchBlinkList sample_env (after_requests 0)) = Inr \<lparr>entries = []\<rparr>
   \<and> registry sample_env (length (requests (after_requests 1))) (list_request sample_env)
     = Inl (TypeError ''Failed to fetch'')
   \<and> fst (fetchBlinkList sample_env (after_requests 1)) = Inr \<lparr>entries = []\<rparr>
   \<and> registry sample_env (length (requests (after_requests 2))) (list_request sample_env)
     = Inr \<lparr>status = 200, resp_headers = [], json = Inl (SyntaxError ''Unexpected token'')\<rparr>
   \<and> fst (fetchBlinkList sample_env (after_requests 2)) = Inr \<lparr>entries = []\<rparr>
   \<and> fst (fst (refetch sample_env False st0 (after_requests 2))) = Inr ()
   \<and> useBlinkList_data (snd (fst (refetch sample_env False st0 (after_requests 2)))) = []"
  using
    fetchBlinkList_never_rejects [of sample_env "after_requests 0" False st0 _
      "\<lparr>status = 503, resp_headers = [], json = Inl (SyntaxError ''Unexpected token'')\<rparr>"]
    fetchBlinkList_never_rejects [of sample_env "after_requests 1" False st0
      "TypeError ''Failed to fetch''"]
    fetchBlinkList_never_rejects [of sample_env "after_requests 2" False st0
      "SyntaxError ''Unexpected token''"
      "\<lparr>status = 200, resp_headers = [], json = Inl (SyntaxError ''Unexpected token'')\<rparr>"]
  by (auto simp: after_requests_def w0_def sample_env_def sample_registry_def)

end
